theory Spec2Isabelle
  imports Main
begin

section \<open>The activity board script (src/static/app.js)\<close>

text \<open>
  The script is one \<^verbatim>\<open>DOMContentLoaded\<close> handler that defines
  \<^verbatim>\<open>fetchActivities\<close>, \<^verbatim>\<open>unregisterParticipant\<close> and the submit handler of the
  signup form. Everything it does is an effect on the page, a request or a timer, so the
  embedding threads a record of the page through each function; what the network or the
  user answers is an argument of the function.

  Strings are \<^typ>\<open>string\<close>: the UTF-8 bytes of well-formed text. A number of a
  response body is the integer its JSON numeral denotes; what the script computes with is
  the IEEE double nearest to it, see below.
\<close>

subsection \<open>The catalog: JSON.parse and Object.entries\<close>

record activity =
  description :: string
  schedule :: string
  max_participants :: int
  participants :: "string list"

text \<open>
  The body of \<^verbatim>\<open>GET /activities\<close> is a JSON object; its members are kept in the
  order of the response text. \<^verbatim>\<open>JSON.parse\<close> creates one property per member, in
  that order; a repeated name overwrites the value of the property that exists and keeps
  its place.
\<close>

type_synonym 'v members = "(string \<times> 'v) list"

fun CreateDataProperty :: "'v members \<Rightarrow> string \<Rightarrow> 'v \<Rightarrow> 'v members" where
  "CreateDataProperty [] k v = [(k, v)]"
| "CreateDataProperty (p # ps) k v =
     (if fst p = k then (k, v) # ps else p # CreateDataProperty ps k v)"

definition JSON_parse_object :: "'v members \<Rightarrow> 'v members" where
  "JSON_parse_object ms = foldl (\<lambda>obj m. CreateDataProperty obj (fst m) (snd m)) [] ms"

text \<open>
  \<^verbatim>\<open>Object.entries\<close> lists the own properties of an object in the order of
  ECMAScript's OrdinaryOwnPropertyKeys: first the names that are array indices (the
  decimal numeral, without leading zeros, of an integer up to \<open>2^32 - 2\<close>) in ascending
  numeric order, then all other names in the order of their creation. So
  \<^verbatim>\<open>Object.entries(JSON.parse('{"b": 1, "2": 2, "a": 3, "1": 4}'))\<close> lists the names
  \<^verbatim>\<open>1\<close>, \<^verbatim>\<open>2\<close>, \<^verbatim>\<open>b\<close>, \<^verbatim>\<open>a\<close>.
\<close>

definition is_digit :: "char \<Rightarrow> bool" where
  "is_digit c = (48 \<le> (of_char c :: nat) \<and> (of_char c :: nat) \<le> 57)"

definition digit_value :: "char \<Rightarrow> nat" where
  "digit_value c = of_char c - 48"

definition nat_of_digits :: "string \<Rightarrow> nat" where
  "nat_of_digits s = foldl (\<lambda>a c. 10 * a + digit_value c) 0 s"

definition is_array_index :: "string \<Rightarrow> bool" where
  "is_array_index k =
     (k \<noteq> [] \<and> list_all is_digit k \<and> (k = ''0'' \<or> hd k \<noteq> CHR ''0'')
      \<and> nat_of_digits k \<le> 4294967294)"

definition Object_entries :: "'v members \<Rightarrow> 'v members" where
  "Object_entries obj =
     sort_key (\<lambda>p. nat_of_digits (fst p)) (filter (\<lambda>p. is_array_index (fst p)) obj)
     @ filter (\<lambda>p. \<not> is_array_index (fst p)) obj"

subsection \<open>Numbers\<close>

text \<open>
  \<^verbatim>\<open>JSON.parse\<close> turns a numeral into the nearest IEEE double, and the subtraction
  of two doubles is the double nearest to the exact difference (both round a tie to the
  even significand). For an integer this keeps the 53 leading bits. Every integer of
  magnitude up to \<open>2^53\<close> is a double, so nothing is rounded there. The model has no
  infinity: it follows the script up to the largest double (just below \<open>2^1024\<close>).
\<close>

fun bit_length :: "nat \<Rightarrow> nat" where
  "bit_length n = (if n = 0 then 0 else Suc (bit_length (n div 2)))"

declare bit_length.simps [simp del]

definition round_half_even :: "nat \<Rightarrow> nat \<Rightarrow> nat" where
  "round_half_even m e =
     (let q = m div 2 ^ e; r = m mod 2 ^ e in
      if 2 * r < 2 ^ e then q * 2 ^ e
      else if 2 ^ e < 2 * r then (q + 1) * 2 ^ e
      else if even q then q * 2 ^ e
      else (q + 1) * 2 ^ e)"

definition to_double :: "int \<Rightarrow> int" where
  "to_double n =
     (let m = nat \<bar>n\<bar> in sgn n * int (round_half_even m (bit_length m - 53)))"

definition exact_number :: "int \<Rightarrow> bool" where
  "exact_number n = (- 9007199254740992 \<le> n \<and> n \<le> 9007199254740992)"

subsection \<open>Numbers in template literals\<close>

text \<open>
  \<^verbatim>\<open>${spotsLeft}\<close> converts a number to text. For an integer of magnitude up to
  \<open>2^53\<close> the text is its decimal digits, after a minus sign when it is negative, and
  that is what \<open>number_to_string\<close> gives. Above \<open>2^53\<close> the script prints the shortest
  decimal that reads back as the same double, and from \<open>10^21\<close> on it uses exponent
  notation; \<open>number_to_string\<close> does not follow it there, so what is proved of a number's
  text is proved of numbers within the bound (\<open>exact_number\<close>).
\<close>

definition digit_char :: "nat \<Rightarrow> char" where
  "digit_char n = ''0123456789'' ! n"

fun digits_of :: "nat \<Rightarrow> string" where
  "digits_of n =
     (if n < 10 then [digit_char n] else digits_of (n div 10) @ [digit_char (n mod 10)])"

declare digits_of.simps [simp del]

definition number_to_string :: "int \<Rightarrow> string" where
  "number_to_string i =
     (if i < 0 then CHR ''-'' # digits_of (nat (- i)) else digits_of (nat i))"

text \<open>Reading a decimal numeral back, to say that the text of a number is exact.\<close>

definition number_of_string :: "string \<Rightarrow> int" where
  "number_of_string s =
     (case s of
        [] \<Rightarrow> 0
      | c # r \<Rightarrow> if c = CHR ''-'' then - int (nat_of_digits r) else int (nat_of_digits s))"

subsection \<open>The markup of a card\<close>

text \<open>The template literals of \<^verbatim>\<open>fetchActivities\<close>, character for character.\<close>

definition spotsLeft :: "activity \<Rightarrow> int" where
  "spotsLeft details =
     to_double (to_double (max_participants details) - int (length (participants details)))"

text \<open>
  An entry whose remaining capacity the script computes without rounding and prints in
  plain digits: \<open>max_participants\<close> and the difference are within \<open>2^53\<close>, and the
  participants are an array (its length is below \<open>2^32\<close>).
\<close>

definition shown_exactly :: "activity \<Rightarrow> bool" where
  "shown_exactly details =
     (exact_number (max_participants details)
      \<and> length (participants details) < 4294967296
      \<and> exact_number (max_participants details - int (length (participants details))))"

definition participant_item :: "string \<Rightarrow> string \<Rightarrow> string" where
  \<open>participant_item name participant =
     ''\<newline>              <li>\<newline>                <span class="participant-email">''
     @ participant
     @ ''</span>\<newline>                <button class="delete-participant-btn" data-activity="''
     @ name @ ''" data-email="'' @ participant
     @ ''" title="Remove participant"></button>\<newline>              </li>\<newline>            ''\<close>

definition participantsList :: "string \<Rightarrow> activity \<Rightarrow> string" where
  "participantsList name details = concat (map (participant_item name) (participants details))"

definition no_participants_block :: string where
  \<open>no_participants_block =
     ''\<newline>            <div class="activity-participants">\<newline>              <h5>Participants</h5>\<newline>              <div class="no-participants">No participants yet</div>\<newline>            </div>\<newline>          ''\<close>

definition participantsHTML :: "string \<Rightarrow> activity \<Rightarrow> string" where
  \<open>participantsHTML name details =
     (if length (participants details) > 0 then
        ''\<newline>            <div class="activity-participants">\<newline>              <h5>Participants</h5>\<newline>              <ul class="participants-list">\<newline>                ''
        @ participantsList name details
        @ ''\<newline>              </ul>\<newline>            </div>\<newline>          ''
      else no_participants_block)\<close>

definition availability_line :: "int \<Rightarrow> string" where
  \<open>availability_line n =
     ''<p><strong>Availability:</strong> '' @ number_to_string n @ '' spots left</p>''\<close>

definition card_innerHTML :: "string \<Rightarrow> activity \<Rightarrow> string" where
  \<open>card_innerHTML name details =
     ''\<newline>          <h4>'' @ name @ ''</h4>\<newline>          <p>'' @ description details
     @ ''</p>\<newline>          <p><strong>Schedule:</strong> '' @ schedule details
     @ ''</p>\<newline>          '' @ availability_line (spotsLeft details)
     @ ''\<newline>          '' @ participantsHTML name details @ ''\<newline>        ''\<close>

subsection \<open>The page\<close>

text \<open>
  An element created by the script: its class and the markup assigned to its
  \<^verbatim>\<open>innerHTML\<close>.
\<close>

record element =
  className :: string
  innerHTML :: string

text \<open>
  A container is what the script makes of \<^verbatim>\<open>#activities-list\<close>: the markup last
  assigned to its \<^verbatim>\<open>innerHTML\<close>, and the elements appended after that.
\<close>

record container =
  assigned :: string
  appended :: "element list"

record select_option =
  opt_value :: string
  opt_text :: string

record message_div =
  textContent :: string
  classList :: "string list"

datatype http_method = GET | POST | DELETE

text \<open>
  The page: the four elements the script looks up, the two fields of the form, the
  requests issued so far, the pending hide timers (each the time at which it is due, in
  milliseconds) with the clock they are read against, and the console.
\<close>

record page =
  activitiesList :: container
  activitySelect :: "select_option list"
  messageDiv :: message_div
  email_field :: string
  activity_field :: string
  requests :: "(http_method \<times> string) list"
  timers :: "nat list"
  clock :: nat
  console :: "string list"

text \<open>
  What a \<^verbatim>\<open>fetch\<close> followed by \<^verbatim>\<open>response.json()\<close> comes to: the request is
  rejected, the body is not JSON, or a response with its \<^verbatim>\<open>ok\<close> flag and parsed body.
\<close>

datatype 'b fetched = NetworkError | ParseError | Response bool 'b

subsection \<open>fetchActivities\<close>

definition failure_markup :: string where
  "failure_markup = ''<p>Failed to load activities. Please try again later.</p>''"

definition activityCard :: "string \<Rightarrow> activity \<Rightarrow> element" where
  "activityCard name details =
     \<lparr>className = ''activity-card'', innerHTML = card_innerHTML name details\<rparr>"

definition name_option :: "string \<Rightarrow> select_option" where
  "name_option name = \<lparr>opt_value = name, opt_text = name\<rparr>"

text \<open>One turn of the \<^verbatim>\<open>forEach\<close> loop: the card is appended, then the option.\<close>

definition render_activity :: "string \<times> activity \<Rightarrow> page \<Rightarrow> page" where
  "render_activity entry st =
     (let name = fst entry; details = snd entry;
          st1 = st\<lparr>activitiesList :=
                   (activitiesList st)\<lparr>appended :=
                      appended (activitiesList st) @ [activityCard name details]\<rparr>\<rparr>
      in st1\<lparr>activitySelect := activitySelect st1 @ [name_option name]\<rparr>)"

text \<open>
  The call runs up to its first \<^verbatim>\<open>await\<close>: it issues the read request. The rest
  runs when the response has arrived. It does not look at \<^verbatim>\<open>response.ok\<close>. The
  entries of the body have the shape the read endpoint gives them, so nothing throws
  inside the loop: the \<^verbatim>\<open>catch\<close> block runs for a rejected request and for a body
  that is not JSON, both before the first change of the page.
\<close>

definition fetchActivities_call :: "page \<Rightarrow> page" where
  "fetchActivities_call st = st\<lparr>requests := requests st @ [(GET, ''/activities'')]\<rparr>"

definition fetchActivities_resume :: "activity members fetched \<Rightarrow> page \<Rightarrow> page" where
  "fetchActivities_resume r st =
     (case r of
        Response ok body \<Rightarrow>
          fold render_activity (Object_entries (JSON_parse_object body))
            (st\<lparr>activitiesList := \<lparr>assigned = [], appended = []\<rparr>\<rparr>)
      | _ \<Rightarrow>
          st\<lparr>activitiesList := \<lparr>assigned = failure_markup, appended = []\<rparr>,
             console := console st @ [''Error fetching activities:'']\<rparr>)"

definition fetchActivities :: "activity members fetched \<Rightarrow> page \<Rightarrow> page" where
  "fetchActivities r st = fetchActivities_resume r (fetchActivities_call st)"

subsection \<open>Response bodies of the two mutation endpoints\<close>

text \<open>
  The bodies of \<^verbatim>\<open>POST .../signup\<close> and \<^verbatim>\<open>DELETE .../unregister/...\<close> are
  read field by field, so they are kept as JSON values. A number is the integer its
  numeral denotes (numerals with a fraction are not modelled); its text is that of the
  double it is parsed to, within the bound of \<open>number_to_string\<close>.
\<close>

datatype json =
  JNull | JBool bool | JNum int | JStr string | JArr "json list" | JObj "json members"

datatype js_error = TypeError | SyntaxError

text \<open>
  \<^verbatim>\<open>result.message\<close> and \<^verbatim>\<open>result.detail\<close>: reading a property of \<^verbatim>\<open>null\<close>
  throws; an object gives the property's value, or \<^verbatim>\<open>undefined\<close> (here \<open>None\<close>) when it
  has none of that name; every other JSON value has no property of these two names.
\<close>

definition get_property :: "json \<Rightarrow> string \<Rightarrow> js_error + json option" where
  "get_property v k =
     (case v of
        JNull \<Rightarrow> Inl TypeError
      | JObj ms \<Rightarrow> Inr (map_of (JSON_parse_object ms) k)
      | _ \<Rightarrow> Inr None)"

fun join_comma :: "string list \<Rightarrow> string" where
  "join_comma [] = []"
| "join_comma [x] = x"
| "join_comma (x # y # ys) = x @ CHR '','' # join_comma (y # ys)"

fun ToString :: "json \<Rightarrow> string" where
  "ToString JNull = ''null''"
| "ToString (JBool b) = (if b then ''true'' else ''false'')"
| "ToString (JNum n) = number_to_string (to_double n)"
| "ToString (JStr s) = s"
| "ToString (JArr xs) = join_comma (map (\<lambda>x. if x = JNull then [] else ToString x) xs)"
| "ToString (JObj ms) = ''[object Object]''"

text \<open>
  Assigning to \<^verbatim>\<open>textContent\<close> (a nullable string attribute): \<^verbatim>\<open>undefined\<close> and
  \<^verbatim>\<open>null\<close> give the empty text, every other value its string.
\<close>

definition text_of_value :: "json option \<Rightarrow> string" where
  "text_of_value v =
     (case v of None \<Rightarrow> [] | Some x \<Rightarrow> if x = JNull then [] else ToString x)"

fun truthy :: "json option \<Rightarrow> bool" where
  "truthy None = False"
| "truthy (Some JNull) = False"
| "truthy (Some (JBool b)) = b"
| "truthy (Some (JNum n)) = (n \<noteq> 0)"
| "truthy (Some (JStr s)) = (s \<noteq> [])"
| "truthy (Some (JArr xs)) = True"
| "truthy (Some (JObj ms)) = True"

text \<open>\<^verbatim>\<open>a || b\<close>\<close>

definition js_or :: "json option \<Rightarrow> json option \<Rightarrow> json option" where
  "js_or a b = (if truthy a then a else b)"

subsection \<open>The status message and its timers\<close>

definition set_textContent :: "json option \<Rightarrow> page \<Rightarrow> page" where
  "set_textContent v st = st\<lparr>messageDiv := (messageDiv st)\<lparr>textContent := text_of_value v\<rparr>\<rparr>"

text \<open>
  \<^verbatim>\<open>messageDiv.className = c\<close> replaces the whole class attribute; the script only
  assigns the single names \<^verbatim>\<open>success\<close> and \<^verbatim>\<open>error\<close>.
\<close>

definition set_className :: "string \<Rightarrow> page \<Rightarrow> page" where
  "set_className c st = st\<lparr>messageDiv := (messageDiv st)\<lparr>classList := [c]\<rparr>\<rparr>"

definition classList_remove :: "string \<Rightarrow> page \<Rightarrow> page" where
  "classList_remove c st =
     st\<lparr>messageDiv := (messageDiv st)\<lparr>classList := removeAll c (classList (messageDiv st))\<rparr>\<rparr>"

definition classList_add :: "string \<Rightarrow> page \<Rightarrow> page" where
  "classList_add c st =
     st\<lparr>messageDiv := (messageDiv st)\<lparr>classList :=
        (if c \<in> set (classList (messageDiv st)) then classList (messageDiv st)
         else classList (messageDiv st) @ [c])\<rparr>\<rparr>"

text \<open>
  \<^verbatim>\<open>setTimeout(() => messageDiv.classList.add("hidden"), delay)\<close>: every timer of the
  script has this callback, so a pending timer is the time at which it is due. The
  script never calls \<^verbatim>\<open>clearTimeout\<close>.
\<close>

definition setTimeout_hide :: "nat \<Rightarrow> page \<Rightarrow> page" where
  "setTimeout_hide delay st = st\<lparr>timers := timers st @ [clock st + delay]\<rparr>"

text \<open>\<open>d\<close> milliseconds pass with no other event: the timers due by then run.\<close>

definition elapse :: "nat \<Rightarrow> page \<Rightarrow> page" where
  "elapse d st =
     (let now = clock st + d;
          due = filter (\<lambda>t. t \<le> now) (timers st);
          st1 = fold (\<lambda>t. classList_add ''hidden'') due st
      in st1\<lparr>clock := now, timers := filter (\<lambda>t. now < t) (timers st)\<rparr>)"

definition hidden :: "page \<Rightarrow> bool" where
  "hidden st = (''hidden'' \<in> set (classList (messageDiv st)))"

subsection \<open>encodeURIComponent and the request URLs\<close>

text \<open>
  \<^verbatim>\<open>encodeURIComponent\<close> keeps the letters, the digits and
  \<^verbatim>\<open>- _ . ! ~ * ' ( )\<close>, and writes every other byte of the UTF-8 text as
  \<^verbatim>\<open>%\<close> and two upper-case hexadecimal digits. On well-formed text it does not throw.
\<close>

definition is_alpha :: "char \<Rightarrow> bool" where
  "is_alpha c =
     ((65 \<le> (of_char c :: nat) \<and> (of_char c :: nat) \<le> 90)
      \<or> (97 \<le> (of_char c :: nat) \<and> (of_char c :: nat) \<le> 122))"

definition uri_unreserved :: "char \<Rightarrow> bool" where
  "uri_unreserved c = (is_alpha c \<or> is_digit c \<or> c \<in> set ''-_.!~*()'' \<or> c = CHR 0x27)"

definition hex_char :: "nat \<Rightarrow> char" where
  "hex_char n = ''0123456789ABCDEF'' ! n"

definition percent_encode :: "char \<Rightarrow> string" where
  "percent_encode c =
     [CHR ''%'', hex_char ((of_char c :: nat) div 16), hex_char ((of_char c :: nat) mod 16)]"

definition encodeURIComponent :: "string \<Rightarrow> string" where
  "encodeURIComponent s =
     concat (map (\<lambda>c. if uri_unreserved c then [c] else percent_encode c) s)"

definition signup_url :: "string \<Rightarrow> string \<Rightarrow> string" where
  "signup_url activity email =
     ''/activities/'' @ encodeURIComponent activity @ ''/signup?email='' @ encodeURIComponent email"

definition unregister_url :: "string \<Rightarrow> string \<Rightarrow> string" where
  "unregister_url activityName email =
     ''/activities/'' @ encodeURIComponent activityName @ ''/unregister/''
     @ encodeURIComponent email"



subsection \<open>The submit handler of the signup form\<close>

text \<open>
  \<^verbatim>\<open>event.preventDefault()\<close> changes nothing of the page. The two fields are read
  before the request is issued.
\<close>

text \<open>
  Modelled from the spec: the markup of the form (whose default values
  \<^verbatim>\<open>signupForm.reset()\<close> restores) is not under src/; the spec says the reset clears
  the form fields, so both fields return to the empty value.
\<close>

definition signupForm_reset :: "page \<Rightarrow> page" where
  "signupForm_reset st = st\<lparr>email_field := [], activity_field := []\<rparr>"

definition signup_catch :: "page \<Rightarrow> page" where
  "signup_catch st =
     (let st1 = set_textContent (Some (JStr ''Failed to sign up. Please try again.'')) st;
          st2 = set_className ''error'' st1;
          st3 = classList_remove ''hidden'' st2
      in st3\<lparr>console := console st3 @ [''Error signing up:'']\<rparr>)"

text \<open>
  The body of the \<^verbatim>\<open>try\<close> block after the request is issued; \<open>Inl\<close> is a throw
  (a rejected \<^verbatim>\<open>fetch\<close> throws a TypeError, a body that is not JSON a SyntaxError).
  Every throw comes before the first change of the page.
\<close>

definition signup_try :: "json fetched \<Rightarrow> page \<Rightarrow> js_error + page" where
  "signup_try r st =
     (case r of
        Response ok result \<Rightarrow>
          (if ok then
             (case get_property result ''message'' of
                Inl e \<Rightarrow> Inl e
              | Inr message \<Rightarrow>
                  Inr (setTimeout_hide 5000 (classList_remove ''hidden''
                        (fetchActivities_call (signupForm_reset
                          (set_className ''success'' (set_textContent message st)))))))
           else
             (case get_property result ''detail'' of
                Inl e \<Rightarrow> Inl e
              | Inr detail \<Rightarrow>
                  Inr (setTimeout_hide 5000 (classList_remove ''hidden''
                        (set_className ''error''
                          (set_textContent
                             (js_or detail (Some (JStr ''An error occurred''))) st))))))
      | NetworkError \<Rightarrow> Inl TypeError
      | ParseError \<Rightarrow> Inl SyntaxError)"

definition signup_submit :: "json fetched \<Rightarrow> page \<Rightarrow> page" where
  "signup_submit r st =
     (let email = email_field st;
          activity = activity_field st;
          st1 = st\<lparr>requests := requests st @ [(POST, signup_url activity email)]\<rparr>
      in case signup_try r st1 of Inl e \<Rightarrow> signup_catch st1 | Inr st2 \<Rightarrow> st2)"

subsection \<open>unregisterParticipant\<close>

definition unregister_catch :: "page \<Rightarrow> page" where
  "unregister_catch st =
     (let st0 = st\<lparr>console := console st @ [''Error unregistering participant:'']\<rparr>;
          st1 = set_textContent
                  (Some (JStr ''Failed to unregister participant. Please try again.'')) st0;
          st2 = set_className ''error'' st1;
          st3 = classList_remove ''hidden'' st2
      in setTimeout_hide 5000 st3)"

definition unregister_try :: "json fetched \<Rightarrow> page \<Rightarrow> js_error + page" where
  "unregister_try r st =
     (case r of
        Response ok result \<Rightarrow>
          (if ok then
             (case get_property result ''message'' of
                Inl e \<Rightarrow> Inl e
              | Inr message \<Rightarrow>
                  Inr (setTimeout_hide 3000 (fetchActivities_call
                        (classList_remove ''hidden''
                          (set_className ''success'' (set_textContent message st))))))
           else
             (case get_property result ''detail'' of
                Inl e \<Rightarrow> Inl e
              | Inr detail \<Rightarrow>
                  Inr (setTimeout_hide 5000 (classList_remove ''hidden''
                        (set_className ''error''
                          (set_textContent
                             (js_or detail (Some (JStr ''Failed to unregister participant'')))
                             st))))))
      | NetworkError \<Rightarrow> Inl TypeError
      | ParseError \<Rightarrow> Inl SyntaxError)"

text \<open>\<open>confirmed\<close> is the user's answer to the \<^verbatim>\<open>confirm\<close> dialog.\<close>

definition unregisterParticipant ::
  "string \<Rightarrow> string \<Rightarrow> bool \<Rightarrow> json fetched \<Rightarrow> page \<Rightarrow> page" where
  "unregisterParticipant activityName email confirmed r st =
     (if \<not> confirmed then st
      else
        let st1 = st\<lparr>requests := requests st @ [(DELETE, unregister_url activityName email)]\<rparr>
        in case unregister_try r st1 of Inl e \<Rightarrow> unregister_catch st1 | Inr st2 \<Rightarrow> st2)"

subsection \<open>How the browser reads the markup of a card\<close>

text \<open>
  Assigning to \<^verbatim>\<open>innerHTML\<close> hands the markup to the HTML parser. What the removal
  controls are, and what \<^verbatim>\<open>getAttribute\<close> returns on them later, is decided by the
  parser's tokenizer; this is its state machine for tags and attributes (HTML standard,
  section 13.2.5), reading one character at a time and listing the start tags it emits.

  It does not model character references (\<^verbatim>\<open>&\<close>), comments and declarations
  (\<^verbatim>\<open><!\<close>, \<^verbatim>\<open><?\<close>), NUL and CR, or elements other than those of the card's
  templates: on any of these it stops in the state \<open>Unmodelled\<close> and the reading has no
  result. It lists start tags, not elements: for the nine elements of the templates the
  tree builder makes one element of every start tag as long as no value brings a tag of
  its own (an unclosed \<^verbatim>\<open><strong>\<close> in a value would be opened again after the
  paragraph and count twice). It is used on values without \<^verbatim>\<open><\<close> only.
\<close>

datatype tmode =
  Data | TagOpen | EndTagOpen | TagName | BeforeAttrName | AttrName | AfterAttrName
  | BeforeAttrValue | AttrValueDQ | AttrValueSQ | AttrValueUnq | AfterAttrValueQ
  | SelfClosingStartTag | Unmodelled

type_synonym start_tag = "string \<times> (string \<times> string) list"

record tokenizer =
  mode :: tmode
  end_tag :: bool
  tag_name :: string
  attrs :: "(string \<times> string) list"
  has_attr :: bool
  attr_name :: string
  attr_value :: string
  emitted :: "start_tag list"

definition data_state :: "start_tag list \<Rightarrow> tokenizer" where
  "data_state ts =
     \<lparr>mode = Data, end_tag = False, tag_name = [], attrs = [], has_attr = False,
      attr_name = [], attr_value = [], emitted = ts\<rparr>"


definition is_space :: "char \<Rightarrow> bool" where
  "is_space c = (c = CHR 0x09 \<or> c = CHR 0x0A \<or> c = CHR 0x0C \<or> c = CHR '' '')"





















text \<open>
  \<^verbatim>\<open>classList.contains\<close> looks among the names of the class attribute, which are
  separated by white space.
\<close>

fun split_spaces :: "string \<Rightarrow> string \<Rightarrow> string list" where
  "split_spaces cur [] = (if cur = [] then [] else [cur])"
| "split_spaces cur (c # cs) =
     (if is_space c then (if cur = [] then split_spaces [] cs else cur # split_spaces [] cs)
      else split_spaces (cur @ [c]) cs)"

definition class_names :: "start_tag \<Rightarrow> string list" where
  "class_names t = (case map_of (snd t) ''class'' of None \<Rightarrow> [] | Some v \<Rightarrow> split_spaces [] v)"

text \<open>
  A removal control is an element the click listener acts on: one whose class list
  contains \<^verbatim>\<open>delete-participant-btn\<close>. What the listener reads from it are the two
  data attributes (\<open>None\<close> is the \<^verbatim>\<open>null\<close> of a missing attribute).
\<close>

definition is_removal_control :: "start_tag \<Rightarrow> bool" where
  "is_removal_control t = (''delete-participant-btn'' \<in> set (class_names t))"

definition control_data :: "start_tag \<Rightarrow> string option \<times> string option" where
  "control_data t = (map_of (snd t) ''data-activity'', map_of (snd t) ''data-email'')"


text \<open>
  The click listener of the list: a click on an element of that class unregisters what
  its two data attributes name (a missing attribute is \<^verbatim>\<open>null\<close>, which the template
  literal and \<^verbatim>\<open>encodeURIComponent\<close> both turn into the text \<^verbatim>\<open>null\<close>); a click
  anywhere else does nothing.
\<close>

definition attribute_text :: "string option \<Rightarrow> string" where
  "attribute_text a = (case a of None \<Rightarrow> ''null'' | Some v \<Rightarrow> v)"

definition on_click :: "start_tag \<Rightarrow> bool \<Rightarrow> json fetched \<Rightarrow> page \<Rightarrow> page" where
  "on_click target confirmed r st =
     (if is_removal_control target
      then unregisterParticipant (attribute_text (fst (control_data target)))
             (attribute_text (snd (control_data target))) confirmed r st
      else st)"






subsection \<open>Example values\<close>

definition blank_page :: page where
  "blank_page =
     \<lparr>activitiesList = \<lparr>assigned = [], appended = []\<rparr>,
      activitySelect = [],
      messageDiv = \<lparr>textContent = [], classList = [''hidden'']\<rparr>,
      email_field = [], activity_field = [],
      requests = [], timers = [], clock = 0, console = []\<rparr>"

definition chess :: activity where
  "chess =
     \<lparr>description = ''Learn chess'', schedule = ''Fridays'', max_participants = 2,
      participants = [''a@b.com'', ''c@d.org'']\<rparr>"

definition art :: activity where
  "art =
     \<lparr>description = ''Paint'', schedule = ''Mondays'', max_participants = 1,
      participants = []\<rparr>"



definition signed_up :: json where
  "signed_up = JObj [(''message'', JStr ''Signed up a@b.com'')]"

definition already_signed_up :: json where
  "already_signed_up = JObj [(''detail'', JStr ''Already signed up'')]"

definition filled_page :: page where
  "filled_page = blank_page\<lparr>email_field := ''a@b.com'', activity_field := ''Chess Club''\<rparr>"

text \<open>
  Two submissions of the signup form: the first is answered with success at time 0, the
  second with an application error 4000 ms later.
\<close>

definition first_shown :: page where
  "first_shown = signup_submit (Response True signed_up) filled_page"

definition second_shown :: page where
  "second_shown = signup_submit (Response False already_signed_up) (elapse 4000 first_shown)"

section \<open>Properties\<close>

subsection \<open>Parsing the catalog and listing its entries\<close>

lemma CreateDataProperty_fresh:
  "k \<notin> fst ` set ps \<Longrightarrow> CreateDataProperty ps k v = ps @ [(k, v)]"
  by (induction ps) auto

lemma JSON_parse_foldl_distinct:
  "distinct (map fst (acc @ ms)) \<Longrightarrow>
   foldl (\<lambda>obj m. CreateDataProperty obj (fst m) (snd m)) acc ms = acc @ ms"
proof (induction ms arbitrary: acc)
  case Nil
  then show ?case by simp
next
  case (Cons m ms)
  have fresh: "fst m \<notin> fst ` set acc" using Cons.prems by auto
  have "distinct (map fst ((acc @ [m]) @ ms))" using Cons.prems by simp
  from Cons.IH [OF this] show ?case
    by (simp add: CreateDataProperty_fresh [OF fresh])
qed

lemma JSON_parse_object_distinct:
  "distinct (map fst ms) \<Longrightarrow> JSON_parse_object ms = ms"
  unfolding JSON_parse_object_def using JSON_parse_foldl_distinct [of "[]" ms] by simp

lemma Object_entries_length: "length (Object_entries obj) = length obj"
  unfolding Object_entries_def by (simp add: sum_length_filter_compl)

lemma Object_entries_set: "set (Object_entries obj) = set obj"
  unfolding Object_entries_def by auto

lemma Object_entries_plain:
  "\<not> list_ex is_array_index (map fst obj) \<Longrightarrow> Object_entries obj = obj"
  unfolding Object_entries_def by (simp add: list_ex_iff filter_empty_conv)

subsection \<open>Decimal numerals\<close>

lemma below_ten: "n < 10 \<Longrightarrow> n \<in> set [0, 1, 2, 3, 4, 5, 6, 7, 8, 9 :: nat]"
  by simp arith

lemma digit_value_digit_char: "n < 10 \<Longrightarrow> digit_value (digit_char n) = n"
  by (drule below_ten) (auto simp add: digit_value_def digit_char_def)

lemma digit_char_not_minus: "n < 10 \<Longrightarrow> digit_char n \<noteq> CHR ''-''"
  by (drule below_ten) (auto simp add: digit_char_def)

lemma nat_of_digits_snoc: "nat_of_digits (s @ [c]) = 10 * nat_of_digits s + digit_value c"
  by (simp add: nat_of_digits_def)

lemma nat_of_digits_digits_of: "nat_of_digits (digits_of n) = n"
proof (induction n rule: digits_of.induct)
  case (1 n)
  show ?case
  proof (cases "n < 10")
    case True
    then show ?thesis
      by (subst digits_of.simps) (simp add: nat_of_digits_def digit_value_digit_char)
  next
    case False
    with 1 show ?thesis
      by (subst digits_of.simps) (simp add: nat_of_digits_snoc digit_value_digit_char)
  qed
qed

lemma digits_of_not_Nil: "digits_of n \<noteq> []"
  by (subst digits_of.simps) simp

lemma hd_digits_of_not_minus: "hd (digits_of n) \<noteq> CHR ''-''"
proof (induction n rule: digits_of.induct)
  case (1 n)
  show ?case
  proof (cases "n < 10")
    case True
    then show ?thesis
      by (subst digits_of.simps) (simp add: digit_char_not_minus)
  next
    case False
    with 1 show ?thesis
      by (subst digits_of.simps) (simp add: digits_of_not_Nil)
  qed
qed

lemma number_of_string_number_to_string: "number_of_string (number_to_string i) = i"
proof (cases "i < 0")
  case True
  then show ?thesis
    by (simp add: number_of_string_def number_to_string_def nat_of_digits_digits_of)
next
  case False
  obtain c r where cr: "digits_of (nat i) = c # r"
    using digits_of_not_Nil [of "nat i"] by (cases "digits_of (nat i)") auto
  have "c \<noteq> CHR ''-''" using hd_digits_of_not_minus [of "nat i"] cr by simp
  with False cr show ?thesis
    using nat_of_digits_digits_of [of "nat i"]
    by (simp add: number_of_string_def number_to_string_def)
qed

lemma number_to_string_zero: "number_to_string 0 = ''0''"
  by (simp add: number_to_string_def digits_of.simps digit_char_def)

subsection \<open>Doubles\<close>

lemma bit_length_le: "m < 2 ^ k \<Longrightarrow> bit_length m \<le> k"
proof (induction m arbitrary: k rule: bit_length.induct)
  case (1 m)
  show ?case
  proof (cases "m = 0")
    case True
    then show ?thesis by (simp add: bit_length.simps)
  next
    case False
    with "1.prems" obtain j where k: "k = Suc j" by (cases k) auto
    with "1.prems" have "m div 2 < 2 ^ j" by auto
    from "1.IH" [OF False this] False k show ?thesis
      by (subst bit_length.simps) simp
  qed
qed

lemma bit_length_double: "0 < m \<Longrightarrow> bit_length (2 * m) = Suc (bit_length m)"
  by (subst bit_length.simps) simp

lemma bit_length_one: "bit_length (Suc 0) = Suc 0"
  by (simp add: bit_length.simps)

lemma bit_length_power: "bit_length (2 ^ k) = Suc k"
  by (induction k) (simp_all add: bit_length_one bit_length_double)

lemma round_half_even_zero: "round_half_even m 0 = m"
  by (simp add: round_half_even_def)

text \<open>Within \<open>2^53\<close> nothing is rounded.\<close>

lemma to_double_exact:
  assumes "exact_number n"
  shows "to_double n = n"
proof (cases "nat \<bar>n\<bar> < 2 ^ 53")
  case True
  then have "bit_length (nat \<bar>n\<bar>) - 53 = 0"
    using bit_length_le [of "nat \<bar>n\<bar>" 53] by simp
  then show ?thesis
    by (simp add: to_double_def round_half_even_zero mult_sgn_abs)
next
  case False
  with assms have m: "nat \<bar>n\<bar> = 2 ^ 53"
    unfolding exact_number_def by simp arith
  have "bit_length (nat \<bar>n\<bar>) = Suc 53"
    unfolding m by (rule bit_length_power)
  then have e: "bit_length (nat \<bar>n\<bar>) - 53 = Suc 0" by simp
  have r: "round_half_even (nat \<bar>n\<bar>) (Suc 0) = nat \<bar>n\<bar>"
    unfolding m by (simp add: round_half_even_def)
  show ?thesis
    by (simp add: to_double_def e r mult_sgn_abs)
qed

lemma spotsLeft_exact:
  assumes "shown_exactly details"
  shows "spotsLeft details = max_participants details - int (length (participants details))"
  using assms by (simp add: spotsLeft_def shown_exactly_def to_double_exact)

text \<open>An overbooked entry with a capacity that is not negative is within the bound.\<close>

lemma overbooked_nonnegative_exact:
  assumes "0 \<le> max_participants details"
    and "max_participants details < int (length (participants details))"
    and "length (participants details) < 4294967296"
  shows "shown_exactly details"
  using assms by (simp add: shown_exactly_def exact_number_def)



subsection \<open>The render loop\<close>

lemma fold_render_activity_list:
  "activitiesList (fold render_activity es st) =
     (activitiesList st)\<lparr>appended := appended (activitiesList st)
        @ map (\<lambda>e. activityCard (fst e) (snd e)) es\<rparr>"
  by (induction es arbitrary: st) (simp_all add: render_activity_def Let_def)

lemma fold_render_activity_select:
  "activitySelect (fold render_activity es st) = activitySelect st @ map (\<lambda>e. name_option (fst e)) es"
  by (induction es arbitrary: st) (simp_all add: render_activity_def Let_def)

lemma fold_render_activity_requests:
  "requests (fold render_activity es st) = requests st"
  by (induction es arbitrary: st) (simp_all add: render_activity_def Let_def)

lemma fold_render_activity_message:
  "messageDiv (fold render_activity es st) = messageDiv st"
  by (induction es arbitrary: st) (simp_all add: render_activity_def Let_def)

lemma fold_render_activity_timers:
  "timers (fold render_activity es st) = timers st"
  by (induction es arbitrary: st) (simp_all add: render_activity_def Let_def)

lemma fetchActivities_list:
  "activitiesList (fetchActivities (Response ok body) st) =
     \<lparr>assigned = [],
      appended = map (\<lambda>e. activityCard (fst e) (snd e)) (Object_entries (JSON_parse_object body))\<rparr>"
  by (simp add: fetchActivities_def fetchActivities_resume_def fetchActivities_call_def
      fold_render_activity_list)

lemma fetchActivities_select:
  "activitySelect (fetchActivities (Response ok body) st) =
     activitySelect st @ map (\<lambda>e. name_option (fst e)) (Object_entries (JSON_parse_object body))"
  by (simp add: fetchActivities_def fetchActivities_resume_def fetchActivities_call_def
      fold_render_activity_select)

lemma card_availability:
  \<open>\<exists>pre post. innerHTML (activityCard name details) =
      pre @ ''<p><strong>Availability:</strong> '' @ number_to_string (spotsLeft details)
      @ '' spots left</p>'' @ post\<close>
proof -
  let ?pre = \<open>''\<newline>          <h4>'' @ name @ ''</h4>\<newline>          <p>'' @ description details
     @ ''</p>\<newline>          <p><strong>Schedule:</strong> '' @ schedule details
     @ ''</p>\<newline>          ''\<close>
  let ?post = \<open>''\<newline>          '' @ participantsHTML name details @ ''\<newline>        ''\<close>
  have \<open>innerHTML (activityCard name details) =
      ?pre @ ''<p><strong>Availability:</strong> '' @ number_to_string (spotsLeft details)
      @ '' spots left</p>'' @ ?post\<close>
    by (simp add: activityCard_def card_innerHTML_def availability_line_def)
  then show ?thesis by blast
qed

lemma card_availability_exact:
  assumes "shown_exactly details"
  shows \<open>\<exists>pre post. innerHTML (activityCard name details) =
      pre @ ''<p><strong>Availability:</strong> ''
      @ number_to_string (max_participants details - int (length (participants details)))
      @ '' spots left</p>'' @ post\<close>
  using card_availability [of name details] by (simp only: spotsLeft_exact [OF assms])

lemmas ix_defs = is_array_index_def is_digit_def nat_of_digits_def digit_value_def

text \<open>
  C1 (amended). For every catalog returned by the read endpoint (a JSON object, its
  activity names distinct), the fetch-and-render operation leaves in the list area exactly
  one card per entry and nothing else. The cards stand in the order of
  \<^verbatim>\<open>Object.entries\<close>: this is the order of the response whenever no activity name is
  an array index; names that are array indices come first, in ascending numeric order.
  For an entry whose \<open>max_participants\<close> and remaining capacity are integers of magnitude
  at most \<open>2^53\<close> (9007199254740992), its participants being an array (fewer than
  \<open>2^32\<close> elements), the card's remaining-capacity text is the decimal numeral of
  \<open>max_participants\<close> minus the length of \<open>participants\<close>: reading the numeral back
  gives the difference, and a difference of 0 is shown as \<open>0\<close>.
\<close>

theorem fetchActivities_cards:
  assumes "distinct (map fst body)"
  shows \<open>activitiesList (fetchActivities (Response ok body) st) =
           \<lparr>assigned = [],
            appended = map (\<lambda>e. activityCard (fst e) (snd e)) (Object_entries body)\<rparr>
         \<and> Object_entries body =
             sort_key (\<lambda>p. nat_of_digits (fst p)) (filter (\<lambda>p. is_array_index (fst p)) body)
             @ filter (\<lambda>p. \<not> is_array_index (fst p)) body
         \<and> length (Object_entries body) = length body
         \<and> set (Object_entries body) = set body
         \<and> (\<not> list_ex is_array_index (map fst body) \<longrightarrow> Object_entries body = body)
         \<and> (\<forall>name details.
               exact_number (max_participants details)
               \<and> length (participants details) < 4294967296
               \<and> exact_number (max_participants details - int (length (participants details)))
               \<longrightarrow>
               (\<exists>pre post. innerHTML (activityCard name details) =
                  pre @ ''<p><strong>Availability:</strong> ''
                  @ number_to_string
                      (max_participants details - int (length (participants details)))
                  @ '' spots left</p>'' @ post)
               \<and> number_of_string
                    (number_to_string
                      (max_participants details - int (length (participants details)))) =
                  max_participants details - int (length (participants details)))
         \<and> number_to_string 0 = ''0''\<close>
proof -
  have cards: "activitiesList (fetchActivities (Response ok body) st) =
           \<lparr>assigned = [],
            appended = map (\<lambda>e. activityCard (fst e) (snd e)) (Object_entries body)\<rparr>"
    by (simp add: fetchActivities_list JSON_parse_object_distinct [OF assms])
  have plain_order: "\<not> list_ex is_array_index (map fst body) \<longrightarrow> Object_entries body = body"
    by (simp add: Object_entries_plain)
  have capacity: \<open>(\<exists>pre post. innerHTML (activityCard name details) =
                  pre @ ''<p><strong>Availability:</strong> ''
                  @ number_to_string
                      (max_participants details - int (length (participants details)))
                  @ '' spots left</p>'' @ post)
               \<and> number_of_string
                    (number_to_string
                      (max_participants details - int (length (participants details)))) =
                  max_participants details - int (length (participants details))\<close>
    if "exact_number (max_participants details)
        \<and> length (participants details) < 4294967296
        \<and> exact_number (max_participants details - int (length (participants details)))"
    for name details
  proof -
    from that have "shown_exactly details" by (simp add: shown_exactly_def)
    from card_availability_exact [OF this, of name] number_of_string_number_to_string
    show ?thesis by (intro conjI)
  qed
  show ?thesis
    by (intro conjI allI impI;
        (rule cards Object_entries_def Object_entries_length Object_entries_set
           plain_order [rule_format] number_to_string_zero
         | (erule capacity [THEN conjunct1]) | (erule capacity [THEN conjunct2])))
qed

theorem fetchActivities_cards_witness:
  \<open>activitiesList (fetchActivities (Response True [(''Chess Club'', chess), (''Art'', art)]) blank_page) =
     \<lparr>assigned = [], appended = [activityCard ''Chess Club'' chess, activityCard ''Art'' art]\<rparr>
   \<and> number_of_string (number_to_string (max_participants chess - int (length (participants chess))))
       = 0\<close>
proof -
  have d: "distinct (map fst [(''Chess Club'', chess), (''Art'', art)])" by simp
  have p: "\<not> list_ex is_array_index (map fst [(''Chess Club'', chess), (''Art'', art)])"
    by (simp add: ix_defs)
  have e: "exact_number (max_participants chess)
        \<and> length (participants chess) < 4294967296
        \<and> exact_number (max_participants chess - int (length (participants chess)))"
    by (simp add: chess_def exact_number_def)
  have z: "max_participants chess - int (length (participants chess)) = 0"
    by (simp add: chess_def)
  note t = fetchActivities_cards [OF d, of True blank_page]
  from t [THEN conjunct1] t [THEN conjunct2, THEN conjunct2, THEN conjunct2, THEN conjunct2,
      THEN conjunct1] p
  have a: "activitiesList (fetchActivities (Response True [(''Chess Club'', chess), (''Art'', art)]) blank_page) =
     \<lparr>assigned = [], appended = [activityCard ''Chess Club'' chess, activityCard ''Art'' art]\<rparr>"
    by simp
  from t [THEN conjunct2, THEN conjunct2, THEN conjunct2, THEN conjunct2, THEN conjunct2,
      THEN conjunct1, rule_format, OF e, THEN conjunct2] z
  have b: "number_of_string (number_to_string (max_participants chess - int (length (participants chess)))) = 0"
    by simp
  from a b show ?thesis by (intro conjI)
qed

text \<open>
  C1 as stated fails on the order: a catalog that lists \<open>Chess Club\<close> before \<open>2024\<close> is
  rendered with the card of \<open>2024\<close> first.
\<close>

theorem fetchActivities_order_counterexample:
  \<open>appended (activitiesList
      (fetchActivities (Response True [(''Chess Club'', chess), (''2024'', art)]) blank_page)) =
     [activityCard ''2024'' art, activityCard ''Chess Club'' chess]
   \<and> appended (activitiesList
      (fetchActivities (Response True [(''Chess Club'', chess), (''2024'', art)]) blank_page)) \<noteq>
     map (\<lambda>e. activityCard (fst e) (snd e)) [(''Chess Club'', chess), (''2024'', art)]\<close>
proof -
  have e: "Object_entries (JSON_parse_object [(''Chess Club'', chess), (''2024'', art)]) =
      [(''2024'', art), (''Chess Club'', chess)]"
    by (simp add: Object_entries_def JSON_parse_object_def ix_defs)
  have n: "activityCard ''2024'' art \<noteq> activityCard ''Chess Club'' chess"
    by (simp add: activityCard_def card_innerHTML_def)
  show ?thesis by (simp add: fetchActivities_list e n)
qed




text \<open>
  C4. For every fetch-and-render pass whose request is rejected or whose body is not
  JSON, the whole list area is the one fixed failure message, with no card left in it; the
  selection control, the status message and the timers are as they were before the pass;
  and the pass has issued its one read request and no other (no retry).
\<close>

theorem fetchActivities_failure:
  assumes "r = NetworkError \<or> r = ParseError"
  shows "activitiesList (fetchActivities r st) = \<lparr>assigned = failure_markup, appended = []\<rparr>
         \<and> activitySelect (fetchActivities r st) = activitySelect st
         \<and> requests (fetchActivities r st) = requests st @ [(GET, ''/activities'')]
         \<and> timers (fetchActivities r st) = timers st
         \<and> messageDiv (fetchActivities r st) = messageDiv st"
  using assms
  by (auto simp add: fetchActivities_def fetchActivities_resume_def fetchActivities_call_def)

theorem fetchActivities_failure_witness:
  "activitiesList (fetchActivities ParseError
      (fetchActivities (Response True [(''Chess Club'', chess)]) blank_page)) =
     \<lparr>assigned = ''<p>Failed to load activities. Please try again later.</p>'', appended = []\<rparr>
   \<and> activitySelect (fetchActivities ParseError
      (fetchActivities (Response True [(''Chess Club'', chess)]) blank_page)) =
     [name_option ''Chess Club'']
   \<and> requests (fetchActivities ParseError
      (fetchActivities (Response True [(''Chess Club'', chess)]) blank_page)) =
     [(GET, ''/activities''), (GET, ''/activities'')]"
proof -
  let ?st = "fetchActivities (Response True [(''Chess Club'', chess)]) blank_page"
  have o: "Object_entries (JSON_parse_object [(''Chess Club'', chess)]) = [(''Chess Club'', chess)]"
    by (simp add: Object_entries_def JSON_parse_object_def ix_defs)
  have s: "activitySelect ?st = [name_option ''Chess Club'']"
    by (simp add: fetchActivities_select o blank_page_def)
  have q: "requests ?st = [(GET, ''/activities'')]"
    by (simp add: fetchActivities_def fetchActivities_resume_def fetchActivities_call_def
        fold_render_activity_requests blank_page_def)
  from fetchActivities_failure [of ParseError ?st] s q show ?thesis
    by (simp add: failure_markup_def)
qed

text \<open>
  C6 (what the code does at the failing input). Two successful renders of the same
  one-entry catalog, from a blank page: the list area holds the one card of the last
  render, but the selection control holds the option twice. \<^verbatim>\<open>fetchActivities\<close>
  empties the list before it appends and never empties the selection control.
\<close>

theorem select_options_accumulate:
  "activitySelect (fetchActivities (Response True [(''Chess Club'', chess)])
      (fetchActivities (Response True [(''Chess Club'', chess)]) blank_page)) =
     [name_option ''Chess Club'', name_option ''Chess Club'']
   \<and> appended (activitiesList (fetchActivities (Response True [(''Chess Club'', chess)])
      (fetchActivities (Response True [(''Chess Club'', chess)]) blank_page))) =
     [activityCard ''Chess Club'' chess]"
proof -
  have o: "Object_entries (JSON_parse_object [(''Chess Club'', chess)]) = [(''Chess Club'', chess)]"
    by (simp add: Object_entries_def JSON_parse_object_def ix_defs)
  show ?thesis
    by (simp add: fetchActivities_select fetchActivities_list o blank_page_def)
qed

subsection \<open>The two request handlers\<close>

lemmas page_ops = set_textContent_def set_className_def classList_remove_def classList_add_def
  setTimeout_hide_def signupForm_reset_def fetchActivities_call_def

lemmas handler_defs = signup_submit_def signup_try_def signup_catch_def
  unregisterParticipant_def unregister_try_def unregister_catch_def

lemmas uri_defs = signup_url_def unregister_url_def encodeURIComponent_def uri_unreserved_def
  percent_encode_def hex_char_def is_alpha_def is_digit_def

lemmas example_defs = signed_up_def already_signed_up_def filled_page_def blank_page_def
  get_property_def JSON_parse_object_def

text \<open>
  Reading a field of a parsed body: the last member of that name gives the value.
\<close>

lemma map_of_CreateDataProperty:
  "map_of (CreateDataProperty ps k v) x = (if x = k then Some v else map_of ps x)"
  by (induction ps) auto

lemma map_of_JSON_parse_foldl:
  "map_of (foldl (\<lambda>obj m. CreateDataProperty obj (fst m) (snd m)) acc ms) x =
     (case map_of (rev ms) x of None \<Rightarrow> map_of acc x | Some y \<Rightarrow> Some y)"
proof (induction ms arbitrary: acc)
  case Nil
  then show ?case by simp
next
  case (Cons m ms)
  show ?case
    by (cases m)
       (simp add: Cons.IH map_of_CreateDataProperty map_add_def split: option.splits)
qed

lemma map_of_JSON_parse_object: "map_of (JSON_parse_object ms) x = map_of (rev ms) x"
  by (simp add: JSON_parse_object_def map_of_JSON_parse_foldl split: option.splits)

lemma get_property_object: "get_property (JObj ms) k = Inr (map_of (rev ms) k)"
  by (simp add: get_property_def map_of_JSON_parse_object)

text \<open>
  C3 (amended). For every signup submission answered with a JSON object: on a 2xx
  response the class is \<^verbatim>\<open>success\<close>, both form fields are cleared and a read of the
  catalog is issued after the signup request, whatever the object holds; the status text
  is the server's message when the object carries a message string. On a non-2xx
  response the status text is the server's detail when that is a string that is not
  empty, and the fallback \<^verbatim>\<open>An error occurred\<close> when the detail is absent or is the
  empty string; the class is \<^verbatim>\<open>error\<close>, the form fields keep their values, and no
  read of the catalog is issued.
\<close>

theorem signup_response:
  "classList (messageDiv (signup_submit (Response True (JObj ms)) st)) = [''success'']
   \<and> email_field (signup_submit (Response True (JObj ms)) st) = []
   \<and> activity_field (signup_submit (Response True (JObj ms)) st) = []
   \<and> requests (signup_submit (Response True (JObj ms)) st) =
       requests st @ [(POST, signup_url (activity_field st) (email_field st)),
                      (GET, ''/activities'')]
   \<and> (map_of (rev ms) ''message'' = Some (JStr m) \<longrightarrow>
       textContent (messageDiv (signup_submit (Response True (JObj ms)) st)) = m)
   \<and> classList (messageDiv (signup_submit (Response False (JObj ms)) st)) = [''error'']
   \<and> email_field (signup_submit (Response False (JObj ms)) st) = email_field st
   \<and> activity_field (signup_submit (Response False (JObj ms)) st) = activity_field st
   \<and> requests (signup_submit (Response False (JObj ms)) st) =
       requests st @ [(POST, signup_url (activity_field st) (email_field st))]
   \<and> (map_of (rev ms) ''detail'' = Some (JStr s) \<longrightarrow>
       textContent (messageDiv (signup_submit (Response False (JObj ms)) st)) =
         (if s = [] then ''An error occurred'' else s))
   \<and> (map_of (rev ms) ''detail'' = None \<longrightarrow>
       textContent (messageDiv (signup_submit (Response False (JObj ms)) st)) =
         ''An error occurred'')"
  by (simp add: handler_defs page_ops Let_def js_or_def text_of_value_def get_property_object)

theorem signup_response_witness:
  "textContent (messageDiv (signup_submit (Response True signed_up) filled_page)) =
     ''Signed up a@b.com''
   \<and> email_field (signup_submit (Response True signed_up) filled_page) = []
   \<and> requests (signup_submit (Response True signed_up) filled_page) =
       [(POST, ''/activities/Chess%20Club/signup?email=a%40b.com''), (GET, ''/activities'')]
   \<and> textContent (messageDiv (signup_submit (Response False already_signed_up) filled_page)) =
     ''Already signed up''
   \<and> email_field (signup_submit (Response False already_signed_up) filled_page) = ''a@b.com''
   \<and> requests (signup_submit (Response False already_signed_up) filled_page) =
       [(POST, ''/activities/Chess%20Club/signup?email=a%40b.com'')]"
proof -
  have m: "map_of (rev [(''message'', JStr ''Signed up a@b.com'')]) ''message'' =
      Some (JStr ''Signed up a@b.com'')"
    by simp
  have d: "map_of (rev [(''detail'', JStr ''Already signed up'')]) ''detail'' =
      Some (JStr ''Already signed up'')"
    by simp
  have u: "signup_url (activity_field filled_page) (email_field filled_page) =
      ''/activities/Chess%20Club/signup?email=a%40b.com''"
    by (simp add: filled_page_def blank_page_def uri_defs)
  have r: "requests filled_page = []" "email_field filled_page = ''a@b.com''"
    by (simp_all add: filled_page_def blank_page_def)
  from signup_response [where ms = "[(''message'', JStr ''Signed up a@b.com'')]"
      and m = "''Signed up a@b.com''" and st = filled_page]
    signup_response [where ms = "[(''detail'', JStr ''Already signed up'')]"
      and s = "''Already signed up''" and st = filled_page]
    m d u r
  show ?thesis by (simp add: signed_up_def already_signed_up_def)
qed

text \<open>
  C3 as stated fails where the detail is present and empty: the body
  \<^verbatim>\<open>{"detail": ""}\<close> has a detail, and the status text is the fallback, not the detail.
\<close>

theorem signup_empty_detail_counterexample:
  "textContent (messageDiv (signup_submit (Response False (JObj [(''detail'', JStr [])])) blank_page))
     = ''An error occurred''
   \<and> get_property (JObj [(''detail'', JStr [])]) ''detail'' = Inr (Some (JStr []))
   \<and> textContent (messageDiv (signup_submit (Response False (JObj [(''detail'', JStr [])])) blank_page))
     \<noteq> []"
  by (simp add: handler_defs page_ops Let_def js_or_def text_of_value_def example_defs)

text \<open>The timer each path of the two handlers schedules.\<close>

lemma request_timers:
  "get_property result ''message'' = Inr v \<Longrightarrow>
     timers (signup_submit (Response True result) st) = timers st @ [clock st + 5000]"
  "get_property result ''detail'' = Inr v \<Longrightarrow>
     timers (signup_submit (Response False result) st) = timers st @ [clock st + 5000]"
  "get_property result ''message'' = Inr v \<Longrightarrow>
     timers (unregisterParticipant a e True (Response True result) st) =
       timers st @ [clock st + 3000]"
  "get_property result ''detail'' = Inr v \<Longrightarrow>
     timers (unregisterParticipant a e True (Response False result) st) =
       timers st @ [clock st + 5000]"
  "timers (unregisterParticipant a e True NetworkError st) = timers st @ [clock st + 5000]"
  "timers (unregisterParticipant a e True ParseError st) = timers st @ [clock st + 5000]"
  by (simp_all add: handler_defs page_ops Let_def)

text \<open>
  A body that is \<^verbatim>\<open>null\<close> is caught like a failed request, whatever the status:
  reading its field throws.
\<close>

lemma null_body_is_caught:
  "signup_submit (Response ok JNull) st = signup_submit NetworkError st"
  "unregisterParticipant a e c (Response ok JNull) st = unregisterParticipant a e c NetworkError st"
  by (simp_all add: handler_defs get_property_def Let_def)

text \<open>
  C7 (what the code does at the failing input). A signup whose request is rejected, or
  whose response body is not JSON: the failure message is shown and no timer is
  scheduled, so nothing dismisses it. The same failure of an unregister request schedules
  its timer, 5000 ms ahead.
\<close>

theorem signup_transport_failure_no_timer:
  "timers (signup_submit NetworkError st) = timers st
   \<and> timers (signup_submit ParseError st) = timers st
   \<and> textContent (messageDiv (signup_submit NetworkError st)) =
       ''Failed to sign up. Please try again.''
   \<and> classList (messageDiv (signup_submit NetworkError st)) = [''error'']
   \<and> \<not> hidden (signup_submit NetworkError st)
   \<and> timers (unregisterParticipant a e True NetworkError st) = timers st @ [clock st + 5000]"
  by (simp add: handler_defs page_ops Let_def hidden_def text_of_value_def)

text \<open>
  C9 (amended). For a 2xx signup or unregister response whose parsed JSON body is not
  \<^verbatim>\<open>null\<close> and lacks a message field (an object with no member of that name, or a
  value that is no object), the success branch assigns the absent value with no
  fallback: the status text is empty and the class is \<^verbatim>\<open>success\<close>. So is the text
  when the field holds \<^verbatim>\<open>null\<close>, and when it holds a string the text is that string.
  Only the error branch has a fallback string: for a non-2xx response whose body lacks a
  detail field the text is \<^verbatim>\<open>An error occurred\<close> (signup) or
  \<^verbatim>\<open>Failed to unregister participant\<close> (unregister).
\<close>

theorem success_message_no_fallback:
  "((case result of JNull \<Rightarrow> False | JObj ms \<Rightarrow> ''message'' \<notin> fst ` set ms | _ \<Rightarrow> True) \<longrightarrow>
      messageDiv (signup_submit (Response True result) st) =
        \<lparr>textContent = [], classList = [''success'']\<rparr>
      \<and> messageDiv (unregisterParticipant a e True (Response True result) st) =
        \<lparr>textContent = [], classList = [''success'']\<rparr>)
   \<and> (map_of (rev ms) ''message'' = Some JNull \<longrightarrow>
      textContent (messageDiv (signup_submit (Response True (JObj ms)) st)) = []
      \<and> textContent (messageDiv (unregisterParticipant a e True (Response True (JObj ms)) st))
          = [])
   \<and> (map_of (rev ms) ''message'' = Some (JStr m) \<longrightarrow>
      textContent (messageDiv (signup_submit (Response True (JObj ms)) st)) = m
      \<and> textContent (messageDiv (unregisterParticipant a e True (Response True (JObj ms)) st))
          = m)
   \<and> ((case result of JNull \<Rightarrow> False | JObj ms \<Rightarrow> ''detail'' \<notin> fst ` set ms | _ \<Rightarrow> True) \<longrightarrow>
      textContent (messageDiv (signup_submit (Response False result) st)) =
        ''An error occurred''
      \<and> textContent (messageDiv (unregisterParticipant a e True (Response False result) st)) =
        ''Failed to unregister participant'')"
proof -
  have absent: "get_property result k = Inr None"
    if "case result of JNull \<Rightarrow> False | JObj ms \<Rightarrow> k \<notin> fst ` set ms | _ \<Rightarrow> True"
    for k
  proof (cases result)
    case (JObj ms)
    with that have "k \<notin> fst ` set (rev ms)" by simp
    then have "map_of (rev ms) k = None" by (simp add: map_of_eq_None_iff)
    with JObj show ?thesis by (simp add: get_property_object)
  qed (use that in \<open>simp_all add: get_property_def\<close>)
  show ?thesis
    by (intro conjI impI)
       (simp_all add: absent handler_defs page_ops Let_def js_or_def text_of_value_def
          get_property_object)
qed

theorem success_message_no_fallback_witness:
  "textContent (messageDiv (signup_submit (Response True (JObj [])) filled_page)) = []
   \<and> textContent (messageDiv (unregisterParticipant ''Chess Club'' ''a@b.com'' True
        (Response True (JObj [])) filled_page)) = []
   \<and> textContent (messageDiv (signup_submit (Response True signed_up) filled_page)) =
        ''Signed up a@b.com''
   \<and> textContent (messageDiv (signup_submit (Response False (JObj [])) filled_page)) =
        ''An error occurred''
   \<and> textContent (messageDiv (unregisterParticipant ''Chess Club'' ''a@b.com'' True
        (Response False (JObj [])) filled_page)) = ''Failed to unregister participant''"
proof -
  have l: "case JObj [] of JNull \<Rightarrow> False | JObj ms \<Rightarrow> ''message'' \<notin> fst ` set ms | _ \<Rightarrow> True"
    "case JObj [] of JNull \<Rightarrow> False | JObj ms \<Rightarrow> ''detail'' \<notin> fst ` set ms | _ \<Rightarrow> True"
    by simp_all
  have m: "map_of (rev [(''message'', JStr ''Signed up a@b.com'')]) ''message'' =
      Some (JStr ''Signed up a@b.com'')"
    by simp
  from success_message_no_fallback [where result = "JObj []" and st = filled_page
      and a = "''Chess Club''" and e = "''a@b.com''"
      and ms = "[(''message'', JStr ''Signed up a@b.com'')]" and m = "''Signed up a@b.com''"]
    l m
  show ?thesis by (simp add: signed_up_def)
qed

text \<open>
  C9 as stated fails for the body \<^verbatim>\<open>null\<close>, which lacks a message field: reading the
  field throws, the catch block runs, and the status text is its fixed failure text with
  the class \<^verbatim>\<open>error\<close>.
\<close>

theorem null_body_counterexample:
  "messageDiv (signup_submit (Response True JNull) filled_page) =
     \<lparr>textContent = ''Failed to sign up. Please try again.'', classList = [''error'']\<rparr>
   \<and> messageDiv (unregisterParticipant ''Chess Club'' ''a@b.com'' True (Response True JNull)
        filled_page) =
     \<lparr>textContent = ''Failed to unregister participant. Please try again.'',
      classList = [''error'']\<rparr>
   \<and> email_field (signup_submit (Response True JNull) filled_page) = ''a@b.com''"
  by (simp add: handler_defs page_ops Let_def text_of_value_def get_property_def
      filled_page_def blank_page_def)

subsection \<open>Messages and their timers\<close>

lemma fold_hide_message:
  "classList (messageDiv (fold (\<lambda>t. classList_add ''hidden'') ts st)) =
     (if ts = [] \<or> ''hidden'' \<in> set (classList (messageDiv st))
      then classList (messageDiv st) else classList (messageDiv st) @ [''hidden''])"
  by (induction ts arbitrary: st) (auto simp add: classList_add_def)

lemma fold_hide_text:
  "textContent (messageDiv (fold (\<lambda>t. classList_add ''hidden'') ts st)) =
     textContent (messageDiv st)"
  by (induction ts arbitrary: st) (auto simp add: classList_add_def)

lemma fold_hide_nothing: "fold (\<lambda>t. classList_add ''hidden'') [] st = st"
  by simp

lemma elapse_due_hides:
  assumes "t \<in> set (timers st)" and "t \<le> clock st + d"
  shows "''hidden'' \<in> set (classList (messageDiv (elapse d st)))"
proof -
  have "filter (\<lambda>t. t \<le> clock st + d) (timers st) \<noteq> []"
    using assms by (auto simp add: filter_empty_conv)
  then show ?thesis
    by (simp add: elapse_def Let_def fold_hide_message)
qed

lemma elapse_text: "textContent (messageDiv (elapse d st)) = textContent (messageDiv st)"
  by (simp add: elapse_def Let_def fold_hide_text)

lemma elapse_none_due:
  assumes "\<forall>t \<in> set (timers st). clock st + d < t"
  shows "messageDiv (elapse d st) = messageDiv st"
proof -
  have "filter (\<lambda>t. t \<le> clock st + d) (timers st) = []"
    using assms by (auto simp add: filter_empty_conv)
  then show ?thesis by (simp add: elapse_def Let_def)
qed

lemma elapse_timers:
  "timers (elapse d st) = filter (\<lambda>t. clock st + d < t) (timers st)"
  "clock (elapse d st) = clock st + d"
  by (simp_all add: elapse_def Let_def)

lemma signup_submit_message_replaced:
  "messageDiv (signup_submit r (st\<lparr>messageDiv := m\<rparr>)) = messageDiv (signup_submit r st)"
  by (simp add: handler_defs page_ops Let_def split: fetched.splits sum.splits)

lemma unregister_message_replaced:
  "messageDiv (unregisterParticipant a e True r (st\<lparr>messageDiv := m\<rparr>)) =
     messageDiv (unregisterParticipant a e True r st)"
  by (simp add: handler_defs page_ops Let_def split: fetched.splits sum.splits)

lemma signup_submit_shown:
  "''hidden'' \<notin> set (classList (messageDiv (signup_submit r st)))"
  by (simp add: handler_defs page_ops Let_def split: fetched.splits sum.splits)

lemma unregister_shown:
  "''hidden'' \<notin> set (classList (messageDiv (unregisterParticipant a e True r st)))"
  by (simp add: handler_defs page_ops Let_def split: fetched.splits sum.splits)

lemma signup_submit_timers_kept:
  "take (length (timers st)) (timers (signup_submit r st)) = timers st"
  by (simp add: handler_defs page_ops Let_def split: fetched.splits sum.splits)

lemma response_timers:
  "result \<noteq> JNull \<Longrightarrow>
     timers (signup_submit (Response ok result) st) = timers st @ [clock st + 5000]"
  "result \<noteq> JNull \<Longrightarrow>
     timers (unregisterParticipant a e True (Response True result) st) =
       timers st @ [clock st + 3000]"
  "timers (unregisterParticipant a e True (Response False result) st) =
     timers st @ [clock st + 5000]"
  by (cases result; simp add: handler_defs page_ops Let_def get_property_def)+

text \<open>
  C8 (amended). At most one status message exists at a time: the message a completed
  request shows replaces the prior one, whatever that was, and is visible. No pending
  hide timer is ever cancelled or reset: a signup response (body not \<^verbatim>\<open>null\<close>) adds a
  timer 5000 ms ahead after those pending, an unregister success (body not
  \<^verbatim>\<open>null\<close>) one 3000 ms ahead, and an unregister failure (application error, rejected
  request or body that is not JSON) one 5000 ms ahead; every timer pending before a
  signup submission is still pending after it. A pending timer runs when it is due and
  hides the message area, whatever message is shown then and whenever that was shown;
  until a timer is due the message stays as it is. So the timer of an earlier message
  can hide a later message before the later message's own delay has elapsed.
\<close>

theorem message_replaced_timers_kept:
  "messageDiv (signup_submit r (st\<lparr>messageDiv := m\<rparr>)) = messageDiv (signup_submit r st)
   \<and> messageDiv (unregisterParticipant a e True r (st\<lparr>messageDiv := m\<rparr>)) =
       messageDiv (unregisterParticipant a e True r st)
   \<and> ''hidden'' \<notin> set (classList (messageDiv (signup_submit r st)))
   \<and> ''hidden'' \<notin> set (classList (messageDiv (unregisterParticipant a e True r st)))
   \<and> (result \<noteq> JNull \<longrightarrow>
        timers (signup_submit (Response ok result) st) = timers st @ [clock st + 5000])
   \<and> (result \<noteq> JNull \<longrightarrow>
        timers (unregisterParticipant a e True (Response True result) st) =
          timers st @ [clock st + 3000])
   \<and> timers (unregisterParticipant a e True (Response False result) st) =
        timers st @ [clock st + 5000]
   \<and> timers (unregisterParticipant a e True NetworkError st) = timers st @ [clock st + 5000]
   \<and> timers (unregisterParticipant a e True ParseError st) = timers st @ [clock st + 5000]
   \<and> take (length (timers st)) (timers (signup_submit r st)) = timers st
   \<and> (t \<in> set (timers st) \<and> t \<le> clock st + d \<longrightarrow>
        ''hidden'' \<in> set (classList (messageDiv (elapse d st))))
   \<and> textContent (messageDiv (elapse d st)) = textContent (messageDiv st)
   \<and> ((\<forall>t \<in> set (timers st). clock st + d < t) \<longrightarrow> messageDiv (elapse d st) = messageDiv st)
   \<and> timers (elapse d st) = filter (\<lambda>t. clock st + d < t) (timers st)
   \<and> clock (elapse d st) = clock st + d"
  by (intro conjI impI;
      (rule signup_submit_message_replaced unregister_message_replaced signup_submit_shown
         unregister_shown signup_submit_timers_kept request_timers(5) request_timers(6)
         response_timers(3) elapse_text elapse_timers
       | (erule response_timers(1)) | (erule response_timers(2)) | (erule elapse_none_due)
       | (elim conjE, erule (1) elapse_due_hides)))

lemma first_shown_eval:
  "messageDiv first_shown = \<lparr>textContent = ''Signed up a@b.com'', classList = [''success'']\<rparr>"
  "timers first_shown = [5000]" "clock first_shown = 0"
  by (simp_all add: first_shown_def handler_defs page_ops Let_def text_of_value_def example_defs)

lemma second_shown_eval:
  "messageDiv second_shown = \<lparr>textContent = ''Already signed up'', classList = [''error'']\<rparr>"
  "timers second_shown = [5000, 9000]" "clock second_shown = 4000"
  by (simp_all add: second_shown_def handler_defs page_ops Let_def text_of_value_def js_or_def
      get_property_def JSON_parse_object_def already_signed_up_def elapse_def first_shown_eval)

theorem message_replaced_timers_kept_witness:
  "messageDiv (signup_submit (Response False already_signed_up)
      ((elapse 4000 first_shown)\<lparr>messageDiv := \<lparr>textContent = [], classList = []\<rparr>\<rparr>)) =
     \<lparr>textContent = ''Already signed up'', classList = [''error'']\<rparr>
   \<and> timers second_shown = [5000, 9000]
   \<and> ''hidden'' \<in> set (classList (messageDiv (elapse 1000 second_shown)))
   \<and> messageDiv (elapse 500 second_shown) = messageDiv second_shown"
proof -
  have t: "5000 \<in> set (timers second_shown) \<and> 5000 \<le> clock second_shown + 1000"
    by (simp add: second_shown_eval)
  have n: "\<forall>t \<in> set (timers second_shown). clock second_shown + 500 < t"
    by (simp add: second_shown_eval)
  have l: "timers (elapse 4000 first_shown) = [5000]" "clock (elapse 4000 first_shown) = 4000"
    by (simp_all add: elapse_def first_shown_eval)
  have j: "already_signed_up \<noteq> JNull" by (simp add: already_signed_up_def)
  from message_replaced_timers_kept [where r = "Response False already_signed_up"
      and st = "elapse 4000 first_shown" and m = "\<lparr>textContent = [], classList = []\<rparr>"
      and result = already_signed_up and ok = False]
    message_replaced_timers_kept [where st = second_shown and t = 5000 and d = 1000]
    message_replaced_timers_kept [where st = second_shown and d = 500]
    t n l j
  show ?thesis
    by (simp add: second_shown_eval second_shown_def [symmetric])
qed

text \<open>
  C8 as stated fails: a success message is shown at time 0 and an error message at time
  4000; at time 5000 the first message's timer hides the second message, 1000 ms after it
  was shown, while its own timer (due at 9000) is still pending.
\<close>

theorem earlier_timer_hides_later_message:
  "textContent (messageDiv second_shown) = ''Already signed up''
   \<and> \<not> hidden second_shown
   \<and> clock second_shown = 4000
   \<and> timers second_shown = [5000, 9000]
   \<and> clock (elapse 1000 second_shown) = 5000
   \<and> hidden (elapse 1000 second_shown)
   \<and> textContent (messageDiv (elapse 1000 second_shown)) = ''Already signed up''
   \<and> timers (elapse 1000 second_shown) = [9000]"
  by (simp add: second_shown_eval hidden_def elapse_def classList_add_def)

subsection \<open>Percent-encoding\<close>














subsection \<open>Reading the markup of a card\<close>

lemma data_state_sel [simp]:
  "mode (data_state ts) = Data" "end_tag (data_state ts) = False"
  "tag_name (data_state ts) = []" "attrs (data_state ts) = []"
  "has_attr (data_state ts) = False" "attr_name (data_state ts) = []"
  "attr_value (data_state ts) = []" "emitted (data_state ts) = ts"
  by (simp_all add: data_state_def)

lemma data_state_mode [simp]: "(data_state ts)\<lparr>mode := Data\<rparr> = data_state ts"
  by (simp add: data_state_def)



























end
